theory Spec2Isabelle
  imports Complex_Main "HOL-Library.Word" "HOL-Library.AList"
begin

unbundle bit_operations_syntax

section \<open>Case conversion of field names (tfutils.go)\<close>

text \<open>
  Go strings are byte sequences; field names are ASCII identifiers, so a name is a
  \<^typ>\<open>string\<close> and \<open>strings.ToLower\<close> / \<open>unicode.ToUpper\<close> act on the ASCII
  letters (bytes outside \<open>A-Z\<close> / \<open>a-z\<close> are left as they are).
\<close>

definition is_upper :: "char \<Rightarrow> bool" where
  "is_upper c = (let n = (of_char c :: nat) in 65 \<le> n \<and> n \<le> 90)"

definition is_lower :: "char \<Rightarrow> bool" where
  "is_lower c = (let n = (of_char c :: nat) in 97 \<le> n \<and> n \<le> 122)"

definition is_digit :: "char \<Rightarrow> bool" where
  "is_digit c = (let n = (of_char c :: nat) in 48 \<le> n \<and> n \<le> 57)"

definition ToLower_char :: "char \<Rightarrow> char" where
  "ToLower_char c = (if is_upper c then char_of ((of_char c :: nat) + 32) else c)"

definition ToUpper_char :: "char \<Rightarrow> char" where
  "ToUpper_char c = (if is_lower c then char_of ((of_char c :: nat) - 32) else c)"

definition ToLower :: "string \<Rightarrow> string" where
  "ToLower s = map ToLower_char s"

text \<open>\<open>strings.Split(str, "_")\<close>: one part more than there are separators.\<close>

fun Split_acc :: "char \<Rightarrow> string \<Rightarrow> string \<Rightarrow> string list" where
  "Split_acc sep cur [] = [rev cur]"
| "Split_acc sep cur (c # cs) =
     (if c = sep then rev cur # Split_acc sep [] cs else Split_acc sep (c # cur) cs)"

definition Split :: "string \<Rightarrow> char \<Rightarrow> string list" where
  "Split s sep = Split_acc sep [] s"

definition snakeToCamelNames :: "(string \<times> string) list" where
  "snakeToCamelNames =
    [(''external_id'', ''externalId''),
     (''label_selector'', ''label-selector''),
     (''vcsa_tls_verify'', ''vcsaTlsVerify'')]"

definition camelToSnakeNames :: "(string \<times> string) list" where
  "camelToSnakeNames = []"

definition acronyms :: "(string \<times> string) list" where
  "acronyms =
    [(''arp'', ''ARP''), (''arpnd'', ''ARPND''), (''as'', ''AS''), (''asn'', ''ASN''),
     (''asvpn'', ''ASVPN''), (''bgp'', ''BGP''), (''dhcp'', ''DHCP''), (''dn'', ''DN''),
     (''ecmp'', ''ECMP''), (''evpn'', ''EVPN''), (''fib'', ''FIB''), (''fqdn'', ''FQDN''),
     (''icmp'', ''ICMP''), (''id'', ''ID''), (''ip'', ''IP''), (''ipv4'', ''IPv4''),
     (''ipv6'', ''IPv6''), (''irb'', ''IRB''), (''l2cp'', ''L2CP''), (''ldap'', ''LDAP''),
     (''mac'', ''MAC''), (''mtu'', ''MTU''), (''nd'', ''ND''), (''pdu'', ''PDU''),
     (''pfc'', ''PFC''), (''rr'', ''RR''), (''safi'', ''SAFI''), (''tls'', ''TLS''),
     (''uri'', ''URI''), (''url'', ''URL''), (''vlan'', ''VLAN''), (''vpn'', ''VPN'')]"

definition ignoreCaseNames :: "string list" where
  "ignoreCaseNames = [''annotations'', ''labels'']"

text \<open>
  The loop of \<open>SnakeToCamel\<close> over \<open>parts\<close>; \<open>i\<close> is the index into \<open>parts\<close>
  (not into the result), as in the source.
\<close>

fun camel_parts :: "nat \<Rightarrow> string list \<Rightarrow> string list" where
  "camel_parts i [] = []"
| "camel_parts i (p # ps) =
     (if p = [] then camel_parts (Suc i) ps
      else let lower = ToLower p in
        (case map_of acronyms lower of
           Some val \<Rightarrow> val # camel_parts (Suc i) ps
         | None \<Rightarrow>
             (if i > 0 then (ToUpper_char (hd lower) # tl lower) # camel_parts (Suc i) ps
              else lower # camel_parts (Suc i) ps)))"

definition SnakeToCamel :: "string \<Rightarrow> string" where
  "SnakeToCamel str =
     (if str = [] then []
      else case map_of snakeToCamelNames str of
        Some val \<Rightarrow> val
      | None \<Rightarrow>
          (case camel_parts 0 (Split str (CHR ''_'')) of
             [] \<Rightarrow> []
           | r # rs \<Rightarrow> concat (ToLower r # rs)))"

text \<open>
  \<open>re.ReplaceAllString(str, "${1}_${2}")\<close> for the pattern \<open>([a-z0-9])([A-Z])\<close>:
  leftmost matches that do not overlap, each replaced by its two characters with an
  underscore between them.
\<close>

fun replace_lower_upper :: "string \<Rightarrow> string" where
  "replace_lower_upper (a # b # cs) =
     (if (is_lower a \<or> is_digit a) \<and> is_upper b
      then a # CHR ''_'' # b # replace_lower_upper cs
      else a # replace_lower_upper (b # cs))"
| "replace_lower_upper cs = cs"

definition CamelToSnake :: "string \<Rightarrow> string" where
  "CamelToSnake str =
     (if str = [] then []
      else case map_of camelToSnakeNames str of
        Some val \<Rightarrow> val
      | None \<Rightarrow> ToLower (replace_lower_upper str))"

section \<open>Go values\<close>

text \<open>
  A finite IEEE float is a dyadic rational: \<open>Finite m e\<close> stands for \<open>m * 2 ^ e\<close>.
  \<open>float32\<close> and \<open>float64\<close> values are both of this shape.
\<close>

datatype gofloat = Finite int int | NaN | PosInf | NegInf

text \<open>\<open>*big.Float\<close>: arbitrary precision, no NaN; the pointer may be nil.\<close>

datatype bigfloat = BigFinite int int | BigInf bool

text \<open>The integer part of \<open>m * 2 ^ e\<close>, rounded towards zero.\<close>

definition trunc_dyadic :: "int \<Rightarrow> int \<Rightarrow> int" where
  "trunc_dyadic m e =
     (if 0 \<le> e then m * 2 ^ nat e
      else sgn m * (\<bar>m\<bar> div 2 ^ nat (- e)))"

definition dyadic_is_int :: "int \<Rightarrow> int \<Rightarrow> bool" where
  "dyadic_is_int m e = (0 \<le> e \<or> \<bar>m\<bar> mod 2 ^ nat (- e) = 0)"

text \<open>
  The conversion \<open>int64(v)\<close> of a float: the fraction is discarded. When the value does
  not fit (or is NaN or infinite) Go leaves the result to the implementation; the model
  takes what amd64 yields there, the bit pattern \<open>0x8000000000000000\<close>.
\<close>

definition float_to_int64 :: "gofloat \<Rightarrow> 64 word" where
  "float_to_int64 f =
     (case f of
        Finite m e \<Rightarrow>
          (let t = trunc_dyadic m e in
           if - (2 ^ 63) \<le> t \<and> t < 2 ^ 63 then word_of_int t else push_bit 63 1)
      | _ \<Rightarrow> push_bit 63 1)"

section \<open>strconv.ParseInt(s, 10, 64)\<close>

datatype NumError = ErrSyntax | ErrRange

text \<open>
  The digit loop of \<open>strconv.ParseUint\<close> for base 10 and 64 bits: a byte that is no
  digit is a syntax error, a value beyond \<open>2 ^ 64 - 1\<close> a range error, whichever comes
  first in the string.
\<close>

definition digit_val :: "char \<Rightarrow> nat" where
  "digit_val c = (of_char c :: nat) - 48"

fun parse_uint_loop :: "string \<Rightarrow> nat \<Rightarrow> NumError + nat" where
  "parse_uint_loop [] n = Inr n"
| "parse_uint_loop (c # cs) n =
     (if \<not> is_digit c then Inl ErrSyntax
      else if n \<ge> 2 ^ 64 div 10 + 1 then Inl ErrRange
      else let n1 = n * 10 + digit_val c in
        if n1 \<ge> 2 ^ 64 then Inl ErrRange else parse_uint_loop cs n1)"

definition ParseUint :: "string \<Rightarrow> NumError + nat" where
  "ParseUint s = (if s = [] then Inl ErrSyntax else parse_uint_loop s 0)"

definition ParseInt :: "string \<Rightarrow> NumError + 64 word" where
  "ParseInt s =
     (if s = [] then Inl ErrSyntax
      else let neg = (hd s = CHR ''-'');
               s' = (if hd s = CHR ''+'' \<or> hd s = CHR ''-'' then tl s else s)
           in case ParseUint s' of
                Inl e \<Rightarrow> Inl e
              | Inr un \<Rightarrow>
                  (if \<not> neg \<and> un \<ge> 2 ^ 63 then Inl ErrRange
                   else if neg \<and> un > 2 ^ 63 then Inl ErrRange
                   else Inr (if neg then - word_of_nat un else word_of_nat un)))"

section \<open>Attribute types and values (terraform-plugin-framework)\<close>

text \<open>
  Modelled from the spec: the attribute type system of the configuration engine is a
  library outside this repository. \<open>AttributeType\<close> is the tagged variant of the data
  model; \<open>AttributeValue\<close> carries the tri-state of \<open>attr.ValueState\<close> next to its
  payload (the zero payload when the value is null or unknown). A Go map is an association
  list in the iteration order of the run; Go fixes no order, and every property below
  holds for each order. \<open>CustomObjectType\<close> is a generated model type (the
  \<open>ObjectTypable\<close> extension point): it has a name and presents the attribute types of the
  generic object it converts to and from.
\<close>

datatype attr_type =
    BoolType
  | DynamicType
  | Float32Type
  | Float64Type
  | Int32Type
  | Int64Type
  | ListType attr_type
  | MapType attr_type
  | NumberType
  | ObjectType "(string \<times> attr_type) list"
  | SetType attr_type
  | StringType
  | TupleType "attr_type list"
  | CustomObjectType string "(string \<times> attr_type) list"

datatype ValueState = ValueStateNull | ValueStateUnknown | ValueStateKnown

datatype attr_value =
    BoolValue ValueState bool
  | DynamicValue ValueState "attr_value option"
  | Float32Value ValueState gofloat
  | Float64Value ValueState gofloat
  | Int32Value ValueState "32 word"
  | Int64Value ValueState "64 word"
  | ListValue ValueState attr_type "attr_value list"
  | MapValue ValueState attr_type "(string \<times> attr_value) list"
  | NumberValue ValueState "bigfloat option"
  | ObjectValue ValueState "(string \<times> attr_type) list" "(string \<times> attr_value) list"
  | SetValue ValueState attr_type "attr_value list"
  | StringValue ValueState string
  | TupleValue ValueState "attr_type list" "attr_value list"
  | CustomObjectValue string ValueState "(string \<times> attr_type) list"
      "(string \<times> attr_value) list"

fun Type :: "attr_value \<Rightarrow> attr_type" where
  "Type (BoolValue s b) = BoolType"
| "Type (DynamicValue s u) = DynamicType"
| "Type (Float32Value s f) = Float32Type"
| "Type (Float64Value s f) = Float64Type"
| "Type (Int32Value s i) = Int32Type"
| "Type (Int64Value s i) = Int64Type"
| "Type (ListValue s t vs) = ListType t"
| "Type (MapValue s t es) = MapType t"
| "Type (NumberValue s n) = NumberType"
| "Type (ObjectValue s ats avs) = ObjectType ats"
| "Type (SetValue s t vs) = SetType t"
| "Type (StringValue s str) = StringType"
| "Type (TupleValue s ts vs) = TupleType ts"
| "Type (CustomObjectValue n s ats avs) = CustomObjectType n ats"

text \<open>
  \<open>IsNull\<close> and \<open>IsUnknown\<close> read the state; a dynamic value is also null (unknown) when
  its underlying value is.
\<close>

fun IsNull :: "attr_value \<Rightarrow> bool" where
  "IsNull (BoolValue s b) = (s = ValueStateNull)"
| "IsNull (DynamicValue s u) =
     (s = ValueStateNull \<or> (case u of None \<Rightarrow> False | Some v \<Rightarrow> IsNull v))"
| "IsNull (Float32Value s f) = (s = ValueStateNull)"
| "IsNull (Float64Value s f) = (s = ValueStateNull)"
| "IsNull (Int32Value s i) = (s = ValueStateNull)"
| "IsNull (Int64Value s i) = (s = ValueStateNull)"
| "IsNull (ListValue s t vs) = (s = ValueStateNull)"
| "IsNull (MapValue s t es) = (s = ValueStateNull)"
| "IsNull (NumberValue s n) = (s = ValueStateNull)"
| "IsNull (ObjectValue s ats avs) = (s = ValueStateNull)"
| "IsNull (SetValue s t vs) = (s = ValueStateNull)"
| "IsNull (StringValue s str) = (s = ValueStateNull)"
| "IsNull (TupleValue s ts vs) = (s = ValueStateNull)"
| "IsNull (CustomObjectValue n s ats avs) = (s = ValueStateNull)"

fun IsUnknown :: "attr_value \<Rightarrow> bool" where
  "IsUnknown (BoolValue s b) = (s = ValueStateUnknown)"
| "IsUnknown (DynamicValue s u) =
     (s = ValueStateUnknown \<or> (case u of None \<Rightarrow> False | Some v \<Rightarrow> IsUnknown v))"
| "IsUnknown (Float32Value s f) = (s = ValueStateUnknown)"
| "IsUnknown (Float64Value s f) = (s = ValueStateUnknown)"
| "IsUnknown (Int32Value s i) = (s = ValueStateUnknown)"
| "IsUnknown (Int64Value s i) = (s = ValueStateUnknown)"
| "IsUnknown (ListValue s t vs) = (s = ValueStateUnknown)"
| "IsUnknown (MapValue s t es) = (s = ValueStateUnknown)"
| "IsUnknown (NumberValue s n) = (s = ValueStateUnknown)"
| "IsUnknown (ObjectValue s ats avs) = (s = ValueStateUnknown)"
| "IsUnknown (SetValue s t vs) = (s = ValueStateUnknown)"
| "IsUnknown (StringValue s str) = (s = ValueStateUnknown)"
| "IsUnknown (TupleValue s ts vs) = (s = ValueStateUnknown)"
| "IsUnknown (CustomObjectValue n s ats avs) = (s = ValueStateUnknown)"

text \<open>
  A value of Go's \<open>any\<close>, by its dynamic type. \<open>int\<close> and \<open>uint\<close> have 64 bits on the
  platforms the provider is built for. \<open>Go_other\<close> is a value of any further type, with
  the name \<open>%T\<close> prints.
\<close>

datatype any =
    Go_nil
  | Go_bool bool
  | Go_int "64 word"
  | Go_int8 "8 word"
  | Go_int16 "16 word"
  | Go_int32 "32 word"
  | Go_int64 "64 word"
  | Go_uint "64 word"
  | Go_uint8 "8 word"
  | Go_uint16 "16 word"
  | Go_uint32 "32 word"
  | Go_uint64 "64 word"
  | Go_float32 gofloat
  | Go_float64 gofloat
  | Go_string string
  | Go_bigFloat "bigfloat option"
  | Go_attrValue attr_value
  | Go_slice "any list"
  | Go_map "(string \<times> any) list"
  | Go_other string

datatype error =
    ValueIsNil
  | Expected string any
  | UnsupportedValue any
  | UnsupportedType attr_type
  | ParseFailed NumError
  | FailedToCreate string
  | Panic string

section \<open>NumToInt64\<close>

fun NumToInt64 :: "any \<Rightarrow> error + 64 word" where
  "NumToInt64 (Go_int v) = Inr v"
| "NumToInt64 (Go_int8 v) = Inr (scast v)"
| "NumToInt64 (Go_int16 v) = Inr (scast v)"
| "NumToInt64 (Go_int32 v) = Inr (scast v)"
| "NumToInt64 (Go_int64 v) = Inr v"
| "NumToInt64 (Go_uint v) = Inr v"
| "NumToInt64 (Go_uint8 v) = Inr (ucast v)"
| "NumToInt64 (Go_uint16 v) = Inr (ucast v)"
| "NumToInt64 (Go_uint32 v) = Inr (ucast v)"
| "NumToInt64 (Go_uint64 v) = Inr v"
| "NumToInt64 (Go_string v) =
     (case ParseInt v of Inl e \<Rightarrow> Inl (ParseFailed e) | Inr n \<Rightarrow> Inr n)"
| "NumToInt64 (Go_float32 v) = Inr (float_to_int64 v)"
| "NumToInt64 (Go_float64 v) = Inr (float_to_int64 v)"
| "NumToInt64 v = Inl (UnsupportedValue v)"

text \<open>
  The same conversion in the words of the specification: the mathematical value of a
  numeric representation, and the 64-bit integer equal to it when there is one
  (lossless), an error otherwise.
\<close>

definition decimal_value :: "string \<Rightarrow> nat" where
  "decimal_value ds = foldl (\<lambda>n c. n * 10 + digit_val c) 0 ds"

definition spec_decimal_int :: "string \<Rightarrow> int option" where
  "spec_decimal_int s =
     (let neg = (s \<noteq> [] \<and> hd s = CHR ''-'');
          ds = (if s \<noteq> [] \<and> (hd s = CHR ''+'' \<or> hd s = CHR ''-'') then tl s else s)
      in if ds \<noteq> [] \<and> list_all is_digit ds
         then Some (if neg then - int (decimal_value ds) else int (decimal_value ds))
         else None)"

fun spec_numeric_value :: "any \<Rightarrow> rat option" where
  "spec_numeric_value (Go_int v) = Some (of_int (sint v))"
| "spec_numeric_value (Go_int8 v) = Some (of_int (sint v))"
| "spec_numeric_value (Go_int16 v) = Some (of_int (sint v))"
| "spec_numeric_value (Go_int32 v) = Some (of_int (sint v))"
| "spec_numeric_value (Go_int64 v) = Some (of_int (sint v))"
| "spec_numeric_value (Go_uint v) = Some (of_int (uint v))"
| "spec_numeric_value (Go_uint8 v) = Some (of_int (uint v))"
| "spec_numeric_value (Go_uint16 v) = Some (of_int (uint v))"
| "spec_numeric_value (Go_uint32 v) = Some (of_int (uint v))"
| "spec_numeric_value (Go_uint64 v) = Some (of_int (uint v))"
| "spec_numeric_value (Go_float32 (Finite m e)) =
     Some (if 0 \<le> e then of_int (m * 2 ^ nat e) else of_int m / of_int (2 ^ nat (- e)))"
| "spec_numeric_value (Go_float64 (Finite m e)) =
     Some (if 0 \<le> e then of_int (m * 2 ^ nat e) else of_int m / of_int (2 ^ nat (- e)))"
| "spec_numeric_value (Go_string s) = map_option of_int (spec_decimal_int s)"
| "spec_numeric_value v = None"

definition spec_lossless_int64 :: "any \<Rightarrow> 64 word option" where
  "spec_lossless_int64 v =
     (case spec_numeric_value v of
        None \<Rightarrow> None
      | Some q \<Rightarrow>
          (if q = of_int \<lfloor>q\<rfloor> \<and> - (2 ^ 63) \<le> \<lfloor>q\<rfloor> \<and> \<lfloor>q\<rfloor> < 2 ^ 63
           then Some (word_of_int \<lfloor>q\<rfloor>) else None))"


section \<open>Properties of the case converter\<close>

lemma SnakeToCamel_empty: "SnakeToCamel [] = []"
  by (simp add: SnakeToCamel_def)

lemma CamelToSnake_empty: "CamelToSnake [] = []"
  by (simp add: CamelToSnake_def)

lemma SnakeToCamel_lag: "SnakeToCamel ''__lag'' = ''lag''"
  by code_simp

lemma SnakeToCamel_pool_ipv4: "SnakeToCamel ''pool_ipv4'' = ''poolIPv4''"
  by code_simp

lemma SnakeToCamel_vlan_id: "SnakeToCamel ''vlan_id'' = ''vlanID''"
  by code_simp

lemma CamelToSnake_apiVersion1: "CamelToSnake ''apiVersion1'' = ''api_version1''"
  by code_simp

lemma CamelToSnake_poolIPv4: "CamelToSnake ''poolIPv4'' = ''pool_ipv4''"
  by code_simp

text \<open>
  C9: the case converter satisfies the example equalities of the specification:
  the empty name is mapped to the empty name by both functions, \<open>SnakeToCamel\<close>
  (\<open>toLowerCamel\<close>) maps \<open>__lag\<close> to \<open>lag\<close>, \<open>pool_ipv4\<close> to \<open>poolIPv4\<close> and \<open>vlan_id\<close> to
  \<open>vlanID\<close>, and \<open>CamelToSnake\<close> (\<open>toSeparated\<close>) maps \<open>apiVersion1\<close> to \<open>api_version1\<close> and
  \<open>poolIPv4\<close> to \<open>pool_ipv4\<close>.
\<close>

theorem case_converter_examples:
  "SnakeToCamel [] = [] \<and> CamelToSnake [] = [] \<and>
   SnakeToCamel ''__lag'' = ''lag'' \<and>
   SnakeToCamel ''pool_ipv4'' = ''poolIPv4'' \<and>
   SnakeToCamel ''vlan_id'' = ''vlanID'' \<and>
   CamelToSnake ''apiVersion1'' = ''api_version1'' \<and>
   CamelToSnake ''poolIPv4'' = ''pool_ipv4''"
  using SnakeToCamel_empty CamelToSnake_empty SnakeToCamel_lag SnakeToCamel_pool_ipv4
    SnakeToCamel_vlan_id CamelToSnake_apiVersion1 CamelToSnake_poolIPv4
  by blast

section \<open>Properties of the integer conversion\<close>

lemma foldl_dec_mono: "n \<le> foldl (\<lambda>n c. n * 10 + digit_val c) n cs"
proof (induction cs arbitrary: n)
  case Nil then show ?case by simp
next
  case (Cons c cs)
  have "n \<le> n * 10 + digit_val c" by simp
  also have "\<dots> \<le> foldl (\<lambda>n c. n * 10 + digit_val c) (n * 10 + digit_val c) cs"
    by (rule Cons.IH)
  finally show ?case by simp
qed

lemma parse_uint_loop_digits:
  "list_all is_digit cs \<Longrightarrow> n < 2 ^ 64 \<Longrightarrow>
   parse_uint_loop cs n =
     (if foldl (\<lambda>n c. n * 10 + digit_val c) n cs < 2 ^ 64
      then Inr (foldl (\<lambda>n c. n * 10 + digit_val c) n cs) else Inl ErrRange)"
proof (induction cs arbitrary: n)
  case Nil
  then show ?case by simp
next
  case (Cons c cs)
  let ?f = "\<lambda>n c. n * 10 + digit_val c"
  from Cons.prems have dc: "is_digit c" and dcs: "list_all is_digit cs" by simp_all
  define n1 where "n1 = n * 10 + digit_val c"
  have mono: "n1 \<le> foldl ?f n1 cs" by (rule foldl_dec_mono)
  have step: "foldl ?f n (c # cs) = foldl ?f n1 cs" by (simp add: n1_def)
  show ?case
  proof (cases "n \<ge> 2 ^ 64 div 10 + 1")
    case True
    then have "n1 \<ge> 2 ^ 64" by (simp add: n1_def)
    with mono have "\<not> foldl ?f n1 cs < 2 ^ 64" by linarith
    with True dc show ?thesis unfolding step by simp
  next
    case False
    show ?thesis
    proof (cases "n1 \<ge> 2 ^ 64")
      case True
      with mono have "\<not> foldl ?f n1 cs < 2 ^ 64" by linarith
      with True False dc show ?thesis unfolding step by (simp add: Let_def n1_def [symmetric])
    next
      case F2: False
      then have "n1 < 2 ^ 64" by simp
      from Cons.IH [OF dcs this] F2 False dc show ?thesis
        unfolding step by (simp add: Let_def n1_def [symmetric])
    qed
  qed
qed

lemma parse_uint_loop_nondigit:
  "\<not> list_all is_digit cs \<Longrightarrow> isl (parse_uint_loop cs n)"
  by (induction cs arbitrary: n) (auto simp: Let_def)

lemma ParseUint_digits:
  "ds \<noteq> [] \<Longrightarrow> list_all is_digit ds \<Longrightarrow>
   ParseUint ds = (if decimal_value ds < 2 ^ 64 then Inr (decimal_value ds) else Inl ErrRange)"
  using parse_uint_loop_digits [of ds 0] by (simp add: ParseUint_def decimal_value_def)

lemma ParseUint_fail:
  "ds = [] \<or> \<not> list_all is_digit ds \<Longrightarrow> isl (ParseUint ds)"
  using parse_uint_loop_nondigit [of ds 0] by (auto simp: ParseUint_def)

lemma ParseInt_unsigned:
  "s \<noteq> [] \<Longrightarrow> hd s \<noteq> CHR ''-'' \<Longrightarrow>
   ParseInt s = (case ParseUint (if hd s = CHR ''+'' then tl s else s) of Inl e \<Rightarrow> Inl e
     | Inr un \<Rightarrow> if un \<ge> 2 ^ 63 then Inl ErrRange else Inr (word_of_nat un))"
  by (simp add: ParseInt_def Let_def split: sum.splits)

lemma ParseInt_negative:
  "s \<noteq> [] \<Longrightarrow> hd s = CHR ''-'' \<Longrightarrow>
   ParseInt s = (case ParseUint (tl s) of Inl e \<Rightarrow> Inl e
     | Inr un \<Rightarrow> if un > 2 ^ 63 then Inl ErrRange else Inr (- word_of_nat un))"
  by (simp add: ParseInt_def Let_def split: sum.splits)

lemma ParseInt_Some:
  assumes "spec_decimal_int s = Some n"
  shows "ParseInt s = (if - (2 ^ 63) \<le> n \<and> n < 2 ^ 63 then Inr (word_of_int n) else Inl ErrRange)"
proof (cases "s \<noteq> [] \<and> hd s = CHR ''-''")
  case True
  with assms have ok: "tl s \<noteq> []" "list_all is_digit (tl s)" and n: "n = - int (decimal_value (tl s))"
    by (auto simp: spec_decimal_int_def Let_def split: if_splits)
  show ?thesis
    using True by (auto simp: ParseInt_negative ParseUint_digits [OF ok] n)
next
  case False
  define ds where "ds = (if hd s = CHR ''+'' then tl s else s)"
  from False assms have ok: "ds \<noteq> []" "list_all is_digit ds" and n: "n = int (decimal_value ds)"
    by (auto simp: spec_decimal_int_def Let_def ds_def split: if_splits)
  from ok have sne: "s \<noteq> []" by (auto simp: ds_def split: if_splits)
  with False have h: "hd s \<noteq> CHR ''-''" by simp
  show ?thesis
    unfolding ParseInt_unsigned [OF sne h] ds_def [symmetric] ParseUint_digits [OF ok] n
    by auto
qed

lemma ParseInt_None:
  assumes "spec_decimal_int s = None"
  shows "isl (ParseInt s)"
proof (cases "s = []")
  case True then show ?thesis by (simp add: ParseInt_def)
next
  case False
  define ds where "ds = (if hd s = CHR ''+'' \<or> hd s = CHR ''-'' then tl s else s)"
  from assms False have "ds = [] \<or> \<not> list_all is_digit ds"
    by (auto simp: spec_decimal_int_def Let_def ds_def split: if_splits)
  then have "isl (ParseUint ds)" by (rule ParseUint_fail)
  then show ?thesis using False
    by (auto simp: ParseInt_def Let_def ds_def isl_def)
qed

end
